theory Spec2Isabelle
  imports Main "HOL-Library.Log_Nat"
begin

section \<open>Strings\<close>

text \<open>
  JavaScript strings are modelled as \<^typ>\<open>string\<close>: a list of code units, each below 256.
  \<open>is_ws\<close> is the white space and line terminator set of \<open>String.prototype.trim\<close> and of
  \<open>parseFloat\<close> restricted to that range (TAB, LF, VT, FF, CR, SP, NBSP).
\<close>

definition is_ws :: "char \<Rightarrow> bool" where
  "is_ws c = (of_char c \<in> {9, 10, 11, 12, 13, 32, 160 :: nat})"

definition trim :: "string \<Rightarrow> string" where
  "trim s = rev (dropWhile is_ws (rev (dropWhile is_ws s)))"

text \<open>\<open>Array.prototype.join\<close> on an array of strings.\<close>

fun join :: "string \<Rightarrow> string list \<Rightarrow> string" where
  "join sep [] = []"
| "join sep [x] = x"
| "join sep (x # y # ys) = x @ sep @ join sep (y # ys)"

definition is_digit :: "char \<Rightarrow> bool" where
  "is_digit c = (48 \<le> (of_char c :: nat) \<and> (of_char c :: nat) \<le> 57)"

definition digit_val :: "char \<Rightarrow> nat" where
  "digit_val c = of_char c - 48"

definition digits_val :: "string \<Rightarrow> nat" where
  "digits_val ds = foldl (\<lambda>n c. 10 * n + digit_val c) 0 ds"

definition digit_char :: "nat \<Rightarrow> char" where
  "digit_char d = ''0123456789'' ! d"

text \<open>The decimal digits of a non-negative integer, as template literals print them.\<close>

fun nat_to_string :: "nat \<Rightarrow> string" where
  "nat_to_string n =
     (if n < 10 then [digit_char n] else nat_to_string (n div 10) @ [digit_char (n mod 10)])"

declare nat_to_string.simps [simp del]

section \<open>Numbers\<close>

text \<open>
  A JavaScript number is an IEEE 754 binary64 value. The finite ones are rationals, so the
  model carries the exact rational and rounds after every operation, as the hardware does.
  The sign of zero is not tracked: of the operations below only a division by zero could
  tell the two zeros apart, and the program never divides by anything but the literal 100.
\<close>

datatype number = NaN | PosInf | NegInf | Fin rat

text \<open>\<open>ilog2 a\<close> is the binary exponent of a positive rational: \<open>2 ^ e \<le> a < 2 ^ (e + 1)\<close>.\<close>

definition ilog2 :: "rat \<Rightarrow> int" where
  "ilog2 a = (if 1 \<le> a then bitlen \<lfloor>a\<rfloor> - 1 else - bitlen (\<lceil>1 / a\<rceil> - 1))"

definition round_half_even :: "rat \<Rightarrow> int" where
  "round_half_even x =
     (let n = \<lfloor>x\<rfloor>; r = x - of_int n
      in if r < 1 / 2 then n else if 1 / 2 < r then n + 1 else if even n then n else n + 1)"

text \<open>
  Rounding a real to binary64, round-to-nearest, ties-to-even: 53 significant bits, the
  spacing of the subnormals below \<open>2 ^ -1022\<close>, overflow to infinity from \<open>2 ^ 1024\<close>.
\<close>

definition round_binary64 :: "rat \<Rightarrow> number" where
  "round_binary64 x =
     (if x = 0 then Fin 0
      else let a = \<bar>x\<bar>;
               e = max (ilog2 a) (- 1022);
               q = 2 powi (e - 52);
               y = of_int (round_half_even (a / q)) * q
           in if 2 powi 1024 \<le> y then (if 0 < x then PosInf else NegInf)
              else Fin (if 0 < x then y else - y))"

text \<open>The operators \<open>*\<close> and \<open>/\<close> on numbers.\<close>

fun num_mul :: "number \<Rightarrow> number \<Rightarrow> number" where
  "num_mul (Fin x) (Fin y) = round_binary64 (x * y)"
| "num_mul NaN _ = NaN"
| "num_mul _ NaN = NaN"
| "num_mul (Fin x) PosInf = (if x = 0 then NaN else if 0 < x then PosInf else NegInf)"
| "num_mul (Fin x) NegInf = (if x = 0 then NaN else if 0 < x then NegInf else PosInf)"
| "num_mul PosInf (Fin y) = (if y = 0 then NaN else if 0 < y then PosInf else NegInf)"
| "num_mul NegInf (Fin y) = (if y = 0 then NaN else if 0 < y then NegInf else PosInf)"
| "num_mul PosInf PosInf = PosInf"
| "num_mul PosInf NegInf = NegInf"
| "num_mul NegInf PosInf = NegInf"
| "num_mul NegInf NegInf = PosInf"

fun num_div :: "number \<Rightarrow> number \<Rightarrow> number" where
  "num_div (Fin x) (Fin y) =
     (if y = 0 then (if x = 0 then NaN else if 0 < x then PosInf else NegInf)
      else round_binary64 (x / y))"
| "num_div NaN _ = NaN"
| "num_div _ NaN = NaN"
| "num_div (Fin x) PosInf = Fin 0"
| "num_div (Fin x) NegInf = Fin 0"
| "num_div PosInf (Fin y) = (if 0 \<le> y then PosInf else NegInf)"
| "num_div NegInf (Fin y) = (if 0 \<le> y then NegInf else PosInf)"
| "num_div PosInf PosInf = NaN"
| "num_div PosInf NegInf = NaN"
| "num_div NegInf PosInf = NaN"
| "num_div NegInf NegInf = NaN"

text \<open>\<open>Math.round\<close>: the nearest integer, a tie going up.\<close>

fun Math_round :: "number \<Rightarrow> number" where
  "Math_round (Fin x) = Fin (of_int \<lfloor>x + 1 / 2\<rfloor>)"
| "Math_round NaN = NaN"
| "Math_round PosInf = PosInf"
| "Math_round NegInf = NegInf"

subsection \<open>parseFloat\<close>

text \<open>
  \<open>parseFloat\<close> skips leading white space, takes the longest prefix that is a
  \<open>StrDecimalLiteral\<close> and returns the number nearest to its mathematical value, or NaN
  when there is no such prefix. A literal is a sign, then \<open>Infinity\<close> or digits with an
  optional fraction and an optional exponent.
\<close>

datatype literal = NoLiteral | InfLiteral bool | DecLiteral bool rat

definition ExponentPart :: "string \<Rightarrow> int" where
  "ExponentPart r =
     (case r of
        [] \<Rightarrow> 0
      | c # r1 \<Rightarrow>
          if c = CHR ''e'' \<or> c = CHR ''E'' then
            (case r1 of
               [] \<Rightarrow> 0
             | s # r2 \<Rightarrow>
                 if s = CHR ''+'' then
                   (if takeWhile is_digit r2 = [] then 0
                    else int (digits_val (takeWhile is_digit r2)))
                 else if s = CHR ''-'' then
                   (if takeWhile is_digit r2 = [] then 0
                    else - int (digits_val (takeWhile is_digit r2)))
                 else if takeWhile is_digit r1 = [] then 0
                 else int (digits_val (takeWhile is_digit r1)))
          else 0)"

definition StrUnsignedDecimalLiteral :: "bool \<Rightarrow> string \<Rightarrow> literal" where
  "StrUnsignedDecimalLiteral neg u =
     (if take 8 u = ''Infinity'' then InfLiteral neg
      else
        let ip = takeWhile is_digit u;
            r1 = dropWhile is_digit u;
            dot = (r1 \<noteq> [] \<and> hd r1 = CHR ''.'');
            fp = (if dot then takeWhile is_digit (tl r1) else []);
            r2 = (if dot then dropWhile is_digit (tl r1) else r1)
        in if ip = [] \<and> fp = [] then NoLiteral
           else DecLiteral neg
                  (of_nat (digits_val (ip @ fp)) * 10 powi (ExponentPart r2 - int (length fp))))"

definition StrDecimalLiteral :: "string \<Rightarrow> literal" where
  "StrDecimalLiteral t =
     (case t of
        [] \<Rightarrow> NoLiteral
      | c # r \<Rightarrow>
          if c = CHR ''-'' then StrUnsignedDecimalLiteral True r
          else if c = CHR ''+'' then StrUnsignedDecimalLiteral False r
          else StrUnsignedDecimalLiteral False t)"

definition parseFloat :: "string \<Rightarrow> number" where
  "parseFloat s =
     (case StrDecimalLiteral (dropWhile is_ws s) of
        NoLiteral \<Rightarrow> NaN
      | InfLiteral neg \<Rightarrow> (if neg then NegInf else PosInf)
      | DecLiteral neg mv \<Rightarrow> round_binary64 (if neg then - mv else mv))"

subsection \<open>toFixed\<close>


subsection \<open>Intl.NumberFormat\<close>






section \<open>The prize list screen\<close>


datatype error = StorageError string | FirestoreError string

fun message :: "error \<Rightarrow> string" where
  "message (StorageError m) = m"
| "message (FirestoreError m) = m"

text \<open>
  The type \<open>Prize\<close> of a fetched record and \<open>getPrizes\<close> belong to \<open>lib/firestore\<close>,
  which is not among the sources modelled. Of a record only the numeric \<open>prizeValue\<close> is
  used; its other fields (\<open>'r\<close>) are spread unchanged into the displayed row.
  \<open>getPrizes\<close> is taken by its outcome.
\<close>

record ('v, 'r) Prize =
  prizeValue :: 'v
  rest :: 'r

datatype log_entry = Warn string error | Err string error

record 'r Prizes =
  loading :: bool
  prizes :: "(string, 'r) Prize list"
  createOpen :: bool
  console_log :: "log_entry list"


section \<open>The creation form\<close>

text \<open>
  \<open>FormValues\<close> is the type inferred from \<open>formSchema\<close>; an optional field is an
  \<^typ>\<open>string option\<close>, with \<open>None\<close> for \<open>undefined\<close>.
\<close>

record FormValues =
  prizeName :: string
  quantityAvailable :: string
  detail1 :: "string option"
  detail2 :: "string option"
  detail3 :: "string option"
  fullDescription :: string
  tags :: string
  sponsorId :: string
  prizeCategory :: string
  stockDate :: string
  fulfillmentMethod :: string
  deliveryTimeline :: string
  claimWindow :: string
  pickupRequired :: bool
  eligibleRegions :: string
  retailValueUSD :: string
  ageRestriction :: string
  idRequired :: bool
  useStandardTerms :: bool
  termsConditionsUrl :: "string option"
  customTermsType :: "string option"
  customTermsUrl :: "string option"
  additionalInfo :: "string option"
  acceptedTerms :: "bool option"

text \<open>
  \<open>z.string().min(n, msg)\<close> and \<open>.max(n)\<close>: each check that fails adds one issue, the
  field's name with the message.
\<close>

definition min_issue :: "string \<Rightarrow> nat \<Rightarrow> string \<Rightarrow> string \<Rightarrow> (string \<times> string) list" where
  "min_issue field n msg s = (if length s < n then [(field, msg)] else [])"

definition max_issue :: "string \<Rightarrow> nat \<Rightarrow> string \<Rightarrow> (string \<times> string) list" where
  "max_issue field n s =
     (if n < length s
      then [(field, ''String must contain at most '' @ nat_to_string n @ '' character(s)'')]
      else [])"

definition formSchema_issues :: "FormValues \<Rightarrow> (string \<times> string) list" where
  "formSchema_issues v =
     min_issue ''prizeName'' 1 ''Prize name is required'' (prizeName v)
     @ max_issue ''prizeName'' 200 (prizeName v)
     @ min_issue ''quantityAvailable'' 1 ''Quantity is required'' (quantityAvailable v)
     @ min_issue ''fullDescription'' 1 ''Full description is required'' (fullDescription v)
     @ max_issue ''fullDescription'' 2000 (fullDescription v)
     @ min_issue ''tags'' 1 ''Tags are required'' (tags v)
     @ min_issue ''sponsorId'' 1 ''Sponsor is required'' (sponsorId v)
     @ min_issue ''prizeCategory'' 1 ''Category is required'' (prizeCategory v)
     @ min_issue ''stockDate'' 1 ''Stock date is required'' (stockDate v)
     @ min_issue ''fulfillmentMethod'' 1 ''Fulfillment method is required'' (fulfillmentMethod v)
     @ min_issue ''deliveryTimeline'' 1 ''Delivery timeline is required'' (deliveryTimeline v)
     @ min_issue ''claimWindow'' 1 ''Claim window is required'' (claimWindow v)
     @ min_issue ''eligibleRegions'' 1 ''Eligible regions required'' (eligibleRegions v)
     @ min_issue ''retailValueUSD'' 1 ''Prize value is required'' (retailValueUSD v)
     @ min_issue ''ageRestriction'' 1 ''Age restriction is required'' (ageRestriction v)"

text \<open>Parsing with the schema: the issues, or the values when there is none.\<close>

definition formSchema :: "FormValues \<Rightarrow> (string \<times> string) list + FormValues" where
  "formSchema v = (if formSchema_issues v = [] then Inr v else Inl (formSchema_issues v))"

definition defaultValues :: FormValues where
  "defaultValues =
     \<lparr>prizeName = [], quantityAvailable = [],
      detail1 = Some [], detail2 = Some [], detail3 = Some [],
      fullDescription = [], tags = [], sponsorId = [], prizeCategory = [], stockDate = [],
      fulfillmentMethod = [], deliveryTimeline = [], claimWindow = [],
      pickupRequired = False, eligibleRegions = [], retailValueUSD = [],
      ageRestriction = [], idRequired = False, useStandardTerms = True,
      termsConditionsUrl = Some [], customTermsType = Some ''url'', customTermsUrl = Some [],
      additionalInfo = Some [], acceptedTerms = Some False\<rparr>"

definition PRIZE_CATEGORIES :: "string list" where
  "PRIZE_CATEGORIES =
     [''Electronics'', ''Gift Cards'', ''Experiences'', ''Fashion'', ''Home & Garden'',
      ''Sports & Outdoors'', ''Food & Beverage'', ''Travel'', ''Other'']"

definition REGIONS :: "string list" where
  "REGIONS =
     [''arima'', ''chaguanas'', ''couva'', ''diego martin'', ''point fortin'',
      ''port of spain'', ''princes town'', ''san fernando'', ''san juan'',
      ''sangre grande'', ''siparia'', ''tobago'', ''tunapuna'']"

subsection \<open>The break-even value\<close>

text \<open>
  The expression \<open>Math.round(parseFloat(v) * 0.25 * 100) / 100\<close>, which the preview and
  the submit handler both contain. The literals 0.25 and 100 are binary64 values.
\<close>

definition breakEven_number :: "string \<Rightarrow> number" where
  "breakEven_number v =
     num_div (Math_round (num_mul (num_mul (parseFloat v) (Fin (1 / 4))) (Fin 100))) (Fin 100)"



section \<open>The prize service\<close>

record File =
  name :: string
  content :: string

record CreatePrizeData =
  prizeName :: string
  quantityAvailable :: string
  fullDescription :: string
  keywords' :: "string list"
  tags :: string
  sponsorId :: string
  prizeCategory :: string
  stockDate :: string
  fulfillmentMethod :: string
  deliveryTimeline :: string
  claimWindow :: string
  pickupRequired :: bool
  eligibleRegions :: string
  retailValueUSD :: string
  breakEvenValue :: number
  ageRestriction :: string
  idRequired :: bool
  useStandardTerms :: bool
  termsConditionsUrl :: string
  customTermsType :: string
  customTermsUrl :: string
  additionalInfo :: string
  status :: string

text \<open>The document written to \<open>prize_database\<close>: the data, the image fields and the time.\<close>

record prizeDoc = CreatePrizeData +
  thumbnail :: string
  images :: "string list"
  createdAt :: nat

subsection \<open>Storage and document store\<close>

text \<open>
  The two stores are external services. Their state is the \<open>world\<close>: the stored blobs, the
  documents of \<open>prize_database\<close>, the \<open>prizesCreation\<close> array of every existing sponsor
  document (a document without the field has the empty array), the network calls issued
  so far and the console. What the services decide on their own is the \<open>env\<close>: the clock
  reading, whether a call fails and with which message, the URL under which a blob is
  served and the identifier the store generates, each as a function of the number of calls
  issued before. A document identifier is a single path segment.
\<close>

datatype call =
    UploadBytes string File
  | GetDownloadURL string
  | AddDoc string prizeDoc
  | UpdateDoc string string string

record env =
  clock :: "nat \<Rightarrow> nat"
  fault :: "nat \<Rightarrow> string option"
  url_of :: "string \<Rightarrow> string"
  new_id :: "nat \<Rightarrow> string"

record world =
  storage :: "string \<rightharpoonup> File"
  prize_database :: "string \<rightharpoonup> prizeDoc"
  sponsors :: "string \<rightharpoonup> string list"
  calls :: "call list"
  console :: "log_entry list"

definition Date_now :: "env \<Rightarrow> world \<Rightarrow> nat" where
  "Date_now env w = clock env (length (calls w))"

definition uploadBytes :: "env \<Rightarrow> string \<Rightarrow> File \<Rightarrow> world \<Rightarrow> (error + unit) \<times> world" where
  "uploadBytes env storageRef f w =
     (let w1 = w\<lparr>calls := calls w @ [UploadBytes storageRef f]\<rparr> in
      case fault env (length (calls w)) of
        Some msg \<Rightarrow> (Inl (StorageError msg), w1)
      | None \<Rightarrow> (Inr (), w1\<lparr>storage := (storage w1)(storageRef \<mapsto> f)\<rparr>))"

definition getDownloadURL :: "env \<Rightarrow> string \<Rightarrow> world \<Rightarrow> (error + string) \<times> world" where
  "getDownloadURL env storageRef w =
     (let w1 = w\<lparr>calls := calls w @ [GetDownloadURL storageRef]\<rparr> in
      case fault env (length (calls w)) of
        Some msg \<Rightarrow> (Inl (StorageError msg), w1)
      | None \<Rightarrow>
          (case storage w1 storageRef of
             None \<Rightarrow> (Inl (StorageError ''storage/object-not-found''), w1)
           | Some f \<Rightarrow> (Inr (url_of env storageRef), w1)))"

text \<open>\<open>addDoc(collection(db, "prize_database"), doc)\<close>: the store generates the identifier.\<close>

definition addDoc :: "env \<Rightarrow> string \<Rightarrow> prizeDoc \<Rightarrow> world \<Rightarrow> (error + string) \<times> world" where
  "addDoc env coll d w =
     (let w1 = w\<lparr>calls := calls w @ [AddDoc coll d]\<rparr> in
      case fault env (length (calls w)) of
        Some msg \<Rightarrow> (Inl (FirestoreError msg), w1)
      | None \<Rightarrow>
          (let docId = new_id env (length (calls w)) in
           (Inr docId, w1\<lparr>prize_database := (prize_database w1)(docId \<mapsto> d)\<rparr>)))"

text \<open>
  \<open>updateDoc(doc(db, "sponsors", id), {prizesCreation: arrayUnion(x)})\<close>. \<open>doc\<close> throws on an
  empty identifier before anything is sent; \<open>updateDoc\<close> fails on a document that does not
  exist; \<open>arrayUnion\<close> appends the element unless the array has it.
\<close>

definition arrayUnion :: "string \<Rightarrow> string list \<Rightarrow> string list" where
  "arrayUnion x arr = (if x \<in> set arr then arr else arr @ [x])"

definition updateDoc :: "env \<Rightarrow> string \<Rightarrow> string \<Rightarrow> string \<Rightarrow> world \<Rightarrow> (error + unit) \<times> world" where
  "updateDoc env coll docId x w =
     (if docId = [] then (Inl (FirestoreError ''invalid-argument''), w)
      else
        let w1 = w\<lparr>calls := calls w @ [UpdateDoc coll docId x]\<rparr> in
        case fault env (length (calls w)) of
          Some msg \<Rightarrow> (Inl (FirestoreError msg), w1)
        | None \<Rightarrow>
            (case sponsors w1 docId of
               None \<Rightarrow> (Inl (FirestoreError ''not-found''), w1)
             | Some arr \<Rightarrow> (Inr (), w1\<lparr>sponsors := (sponsors w1)(docId \<mapsto> arrayUnion x arr)\<rparr>)))"

subsection \<open>createPrizeDocument\<close>

text \<open>Step 1, the loop over the image files: upload, then resolve the URL, in array order.\<close>

fun upload_images ::
  "env \<Rightarrow> File list \<Rightarrow> string list \<Rightarrow> world \<Rightarrow> (error + string list) \<times> world" where
  "upload_images env [] imageUrls w = (Inr imageUrls, w)"
| "upload_images env (f # files) imageUrls w =
     (let storageRef = ''prize_database/'' @ nat_to_string (Date_now env w) @ ''_'' @ name f in
      case uploadBytes env storageRef f w of
        (Inl e, w1) \<Rightarrow> (Inl e, w1)
      | (Inr u, w1) \<Rightarrow>
          (case getDownloadURL env storageRef w1 of
             (Inl e, w2) \<Rightarrow> (Inl e, w2)
           | (Inr url, w2) \<Rightarrow> upload_images env files (imageUrls @ [url]) w2))"

text \<open>\<open>imageUrls[0] || ""\<close>: a missing or empty first entry gives the empty string.\<close>

definition first_or_empty :: "string list \<Rightarrow> string" where
  "first_or_empty imageUrls =
     (case imageUrls of [] \<Rightarrow> [] | u # us \<Rightarrow> (if u = [] then [] else u))"

definition build_prizeDoc :: "CreatePrizeData \<Rightarrow> string list \<Rightarrow> nat \<Rightarrow> prizeDoc" where
  "build_prizeDoc data imageUrls now =
     \<lparr>prizeName = prizeName data,
      quantityAvailable = quantityAvailable data,
      fullDescription = fullDescription data,
      keywords' = keywords' data,
      tags = tags data,
      sponsorId = sponsorId data,
      prizeCategory = prizeCategory data,
      stockDate = stockDate data,
      fulfillmentMethod = fulfillmentMethod data,
      deliveryTimeline = deliveryTimeline data,
      claimWindow = claimWindow data,
      pickupRequired = pickupRequired data,
      eligibleRegions = eligibleRegions data,
      retailValueUSD = retailValueUSD data,
      breakEvenValue = breakEvenValue data,
      ageRestriction = ageRestriction data,
      idRequired = idRequired data,
      useStandardTerms = useStandardTerms data,
      termsConditionsUrl = termsConditionsUrl data,
      customTermsType = customTermsType data,
      customTermsUrl = customTermsUrl data,
      additionalInfo = additionalInfo data,
      status = status data,
      thumbnail = first_or_empty imageUrls,
      images = imageUrls,
      createdAt = now\<rparr>"

definition createPrizeDocument ::
  "env \<Rightarrow> CreatePrizeData \<Rightarrow> File list \<Rightarrow> string \<Rightarrow> world \<Rightarrow> (error + string) \<times> world" where
  "createPrizeDocument env data imageFiles sponsorId' w =
     (case upload_images env imageFiles [] w of
        (Inl e, w1) \<Rightarrow> (Inl e, w1)
      | (Inr imageUrls, w1) \<Rightarrow>
          (case addDoc env ''prize_database'' (build_prizeDoc data imageUrls (Date_now env w1)) w1 of
             (Inl e, w2) \<Rightarrow> (Inl e, w2)
           | (Inr docRef_id, w2) \<Rightarrow>
               (case updateDoc env ''sponsors'' sponsorId' docRef_id w2 of
                  (Inl err, w3) \<Rightarrow>
                    (Inr docRef_id,
                     w3\<lparr>console := console w3
                          @ [Warn ''Could not update sponsor prizesCreation:'' err]\<rparr>)
                | (Inr u, w3) \<Rightarrow> (Inr docRef_id, w3))))"

section \<open>The creation dialog\<close>

record toast =
  title :: string
  description :: string
  variant :: "string option"

text \<open>
  The state of \<open>CreatePrizeModal\<close>: its state variables, the values and the errors of the
  form, the notifications shown, and what the two callbacks of the parent have done
  (\<open>onOpenChange(false)\<close> closes the dialog, \<open>onCreated\<close> is counted). The list of
  sponsors loaded for the select is left out: no handler below reads it.
\<close>

record modal =
  categories :: "string list"
  newCategory :: string
  imageFiles :: "File list"
  imagePreviews :: "string list"
  saving :: bool
  selectedRegions :: "string list"
  form :: FormValues
  form_errors :: "(string \<times> string) list"
  toasts :: "toast list"
  dialog_open :: bool
  created :: nat

text \<open>\<open>Array.prototype.slice(0, end)\<close>: a negative end counts from the end of the array.\<close>

definition slice0 :: "'a list \<Rightarrow> int \<Rightarrow> 'a list" where
  "slice0 xs end_ix =
     (let len = int (length xs);
          final = (if end_ix < 0 then max (len + end_ix) 0 else min end_ix len)
      in take (nat final) xs)"

text \<open>
  \<open>handleImageUpload\<close>; \<open>None\<close> is the null file list. The previews arrive later, one
  \<open>FileReader_onload\<close> per file read.
\<close>

definition handleImageUpload :: "File list option \<Rightarrow> modal \<Rightarrow> modal" where
  "handleImageUpload files m =
     (case files of
        None \<Rightarrow> m
      | Some fs \<Rightarrow>
          (let remaining = 4 - int (length (imageFiles m));
               newFiles = slice0 fs remaining;
               updated = imageFiles m @ newFiles
           in m\<lparr>imageFiles := updated\<rparr>))"

definition FileReader_onload :: "string \<Rightarrow> modal \<Rightarrow> modal" where
  "FileReader_onload result m = m\<lparr>imagePreviews := imagePreviews m @ [result]\<rparr>"

definition remove_index :: "nat \<Rightarrow> 'a list \<Rightarrow> 'a list" where
  "remove_index idx xs = map snd (filter (\<lambda>(i, x). i \<noteq> idx) (enumerate 0 xs))"

definition removeImage :: "nat \<Rightarrow> modal \<Rightarrow> modal" where
  "removeImage idx m =
     m\<lparr>imageFiles := remove_index idx (imageFiles m),
       imagePreviews := remove_index idx (imagePreviews m)\<rparr>"

definition toggleRegion :: "string \<Rightarrow> modal \<Rightarrow> modal" where
  "toggleRegion region m =
     (let prev = selectedRegions m;
          next = (if region \<in> set prev then filter (\<lambda>r. r \<noteq> region) prev
                  else prev @ [region])
      in m\<lparr>form := (form m)\<lparr>FormValues.eligibleRegions := join '', '' next\<rparr>,
           selectedRegions := next\<rparr>)"

definition addCategory :: "modal \<Rightarrow> modal" where
  "addCategory m =
     (let trimmed = trim (newCategory m) in
      if trimmed \<noteq> [] \<and> trimmed \<notin> set (categories m) then
        m\<lparr>categories := categories m @ [trimmed],
          form := (form m)\<lparr>FormValues.prizeCategory := trimmed\<rparr>,
          newCategory := []\<rparr>
      else m)"

subsection \<open>Submitting\<close>

text \<open>\<open>x || d\<close> on an optional string: undefined and the empty string are falsy.\<close>

definition or_else :: "string option \<Rightarrow> string \<Rightarrow> string" where
  "or_else x d = (case x of None \<Rightarrow> d | Some s \<Rightarrow> (if s = [] then d else s))"

text \<open>\<open>[a, b, c].filter(Boolean)\<close> on optional strings.\<close>

definition filter_Boolean :: "string option list \<Rightarrow> string list" where
  "filter_Boolean xs = [s. Some s \<leftarrow> xs, s \<noteq> []]"

definition images_required :: toast where
  "images_required =
     \<lparr>title = ''Images required'',
      description = ''Please upload at least one image.'',
      variant = Some ''destructive''\<rparr>"

definition prize_created :: "string \<Rightarrow> toast" where
  "prize_created n =
     \<lparr>title = ''Prize created'',
      description = [CHR 0x22] @ n @ [CHR 0x22] @ '' saved successfully.'',
      variant = None\<rparr>"

definition error_toast :: "error \<Rightarrow> toast" where
  "error_toast err =
     \<lparr>title = ''Error'',
      description = (if message err = [] then ''Failed to create prize.'' else message err),
      variant = Some ''destructive''\<rparr>"

definition submit_data :: "FormValues \<Rightarrow> CreatePrizeData" where
  "submit_data values =
     \<lparr>prizeName = FormValues.prizeName values,
      quantityAvailable = FormValues.quantityAvailable values,
      fullDescription = FormValues.fullDescription values,
      keywords' = filter_Boolean [detail1 values, detail2 values, detail3 values],
      tags = FormValues.tags values,
      sponsorId = FormValues.sponsorId values,
      prizeCategory = FormValues.prizeCategory values,
      stockDate = FormValues.stockDate values,
      fulfillmentMethod = FormValues.fulfillmentMethod values,
      deliveryTimeline = FormValues.deliveryTimeline values,
      claimWindow = FormValues.claimWindow values,
      pickupRequired = FormValues.pickupRequired values,
      eligibleRegions = FormValues.eligibleRegions values,
      retailValueUSD = FormValues.retailValueUSD values,
      breakEvenValue = breakEven_number (FormValues.retailValueUSD values),
      ageRestriction = FormValues.ageRestriction values,
      idRequired = FormValues.idRequired values,
      useStandardTerms = FormValues.useStandardTerms values,
      termsConditionsUrl = or_else (FormValues.termsConditionsUrl values) [],
      customTermsType = or_else (FormValues.customTermsType values) [],
      customTermsUrl = or_else (FormValues.customTermsUrl values) [],
      additionalInfo = or_else (FormValues.additionalInfo values) [],
      status = ''Active''\<rparr>"

text \<open>
  \<open>onSubmit\<close>. The \<open>saving\<close> flag is raised for the duration of the calls and lowered in
  the \<open>finally\<close> block, so it is down in every state the function ends in.
\<close>

definition onSubmit :: "env \<Rightarrow> FormValues \<Rightarrow> modal \<times> world \<Rightarrow> modal \<times> world" where
  "onSubmit env values = (\<lambda>(m, w).
     if length (imageFiles m) = 0 then (m\<lparr>toasts := toasts m @ [images_required]\<rparr>, w)
     else
       (case createPrizeDocument env (submit_data values) (imageFiles m)
               (FormValues.sponsorId values) w of
          (Inr docId, w1) \<Rightarrow>
            (m\<lparr>toasts := toasts m @ [prize_created (FormValues.prizeName values)],
               form := defaultValues,
               form_errors := [],
               imageFiles := [],
               imagePreviews := [],
               selectedRegions := [],
               dialog_open := False,
               created := Suc (created m),
               saving := False\<rparr>,
             w1)
        | (Inl err, w1) \<Rightarrow>
            (m\<lparr>toasts := toasts m @ [error_toast err], saving := False\<rparr>,
             w1\<lparr>console := console w1 @ [Err ''Error creating prize:'' err]\<rparr>)))"

text \<open>
  \<open>form.handleSubmit(onSubmit)\<close>, the handler of the form's submit event: the resolver
  validates the current values against the schema and \<open>onSubmit\<close> runs only on values it
  accepts; otherwise the issues become the field errors.
\<close>

definition handleSubmit :: "env \<Rightarrow> modal \<times> world \<Rightarrow> modal \<times> world" where
  "handleSubmit env = (\<lambda>(m, w).
     case formSchema (form m) of
       Inl issues \<Rightarrow> (m\<lparr>form_errors := issues\<rparr>, w)
     | Inr values \<Rightarrow> onSubmit env values (m\<lparr>form_errors := []\<rparr>, w))"

text \<open>The dialog as it is first rendered.\<close>

definition initial_modal :: modal where
  "initial_modal =
     \<lparr>categories = PRIZE_CATEGORIES, newCategory = [], imageFiles = [], imagePreviews = [],
      saving = False, selectedRegions = [], form = defaultValues, form_errors = [],
      toasts = [], dialog_open = True, created = 0\<rparr>"

text \<open>
  The states the dialog can be in: it opens in its initial state, and every later state
  comes from a handler. Typing changes the values of the form and the new-category
  input; no field is bound to \<open>eligibleRegions\<close>, which only \<open>toggleRegion\<close> and the reset
  after a successful submission write.
\<close>

inductive reachable :: "env \<Rightarrow> modal \<times> world \<Rightarrow> bool" for env :: env where
  opened: "reachable env (initial_modal, w)"
| typed: "reachable env (m, w) \<Longrightarrow>
          FormValues.eligibleRegions v = FormValues.eligibleRegions (form m) \<Longrightarrow>
          reachable env (m\<lparr>form := v, newCategory := c\<rparr>, w)"
| attached: "reachable env (m, w) \<Longrightarrow> reachable env (handleImageUpload files m, w)"
| loaded: "reachable env (m, w) \<Longrightarrow> reachable env (FileReader_onload result m, w)"
| removed: "reachable env (m, w) \<Longrightarrow> reachable env (removeImage idx m, w)"
| toggled: "reachable env (m, w) \<Longrightarrow> reachable env (toggleRegion region m, w)"
| added: "reachable env (m, w) \<Longrightarrow> reachable env (addCategory m, w)"
| submitted: "reachable env (m, w) \<Longrightarrow> reachable env (handleSubmit env (m, w))"

section \<open>Observing a run\<close>

text \<open>
  The calls a function issued are those the world has gained. \<open>staged\<close> recognises the
  order of the three stages: storage calls, then at most one insert, then at most one
  update.
\<close>

definition issued :: "world \<Rightarrow> world \<Rightarrow> call list" where
  "issued w w' = drop (length (calls w)) (calls w')"

fun is_storage_call :: "call \<Rightarrow> bool" where
  "is_storage_call (UploadBytes p f) = True"
| "is_storage_call (GetDownloadURL p) = True"
| "is_storage_call (AddDoc c d) = False"
| "is_storage_call (UpdateDoc c i x) = False"

fun is_insert :: "call \<Rightarrow> bool" where
  "is_insert (AddDoc c d) = True"
| "is_insert (UploadBytes p f) = False"
| "is_insert (GetDownloadURL p) = False"
| "is_insert (UpdateDoc c i x) = False"

fun is_update :: "call \<Rightarrow> bool" where
  "is_update (UpdateDoc c i x) = True"
| "is_update (UploadBytes p f) = False"
| "is_update (GetDownloadURL p) = False"
| "is_update (AddDoc c d) = False"

fun uploads :: "call list \<Rightarrow> (string \<times> File) list" where
  "uploads [] = []"
| "uploads (UploadBytes p f # cs) = (p, f) # uploads cs"
| "uploads (GetDownloadURL p # cs) = uploads cs"
| "uploads (AddDoc c d # cs) = uploads cs"
| "uploads (UpdateDoc c i x # cs) = uploads cs"

definition staged :: "call list \<Rightarrow> bool" where
  "staged cs =
     (case dropWhile is_storage_call cs of
        [] \<Rightarrow> True
      | [c] \<Rightarrow> is_insert c
      | [c, u] \<Rightarrow> is_insert c \<and> is_update u
      | c # u # v # r \<Rightarrow> False)"

section \<open>Example inputs\<close>

definition six_files :: "File list" where
  "six_files = map (\<lambda>n. \<lparr>name = n, content = []\<rparr>) [''a'', ''b'', ''c'', ''d'', ''e'', ''f'']"

definition example_env :: env where
  "example_env =
     \<lparr>clock = (\<lambda>k. 1700000000000 + k),
      fault = (\<lambda>k. None),
      url_of = (\<lambda>p. ''https://storage.example/'' @ p),
      new_id = (\<lambda>k. ''prize'' @ nat_to_string k)\<rparr>"

definition example_world :: world where
  "example_world =
     \<lparr>storage = Map.empty, prize_database = Map.empty,
      sponsors = [''s1'' \<mapsto> []], calls = [], console = []\<rparr>"

definition example_values :: FormValues where
  "example_values =
     \<lparr>FormValues.prizeName = ''Tablet'', FormValues.quantityAvailable = ''3'',
      FormValues.detail1 = Some ''A'', FormValues.detail2 = Some [], FormValues.detail3 = Some ''C'',
      FormValues.fullDescription = ''A tablet'', FormValues.tags = ''tech'', FormValues.sponsorId = ''s1'',
      FormValues.prizeCategory = ''Electronics'', FormValues.stockDate = ''2025-01-31'',
      FormValues.fulfillmentMethod = ''Courier'', FormValues.deliveryTimeline = ''1-3 Days'',
      FormValues.claimWindow = ''1 Week'', FormValues.pickupRequired = False, FormValues.eligibleRegions = ''arima'',
      FormValues.retailValueUSD = ''1000'', FormValues.ageRestriction = ''18+'', FormValues.idRequired = False,
      FormValues.useStandardTerms = True, FormValues.termsConditionsUrl = Some [], FormValues.customTermsType = Some ''url'',
      FormValues.customTermsUrl = Some [], FormValues.additionalInfo = Some [], FormValues.acceptedTerms = Some False\<rparr>"

definition two_files :: "File list" where
  "two_files = [\<lparr>name = ''a.png'', content = ''A''\<rparr>, \<lparr>name = ''b.png'', content = ''B''\<rparr>]"

definition env_fault_at :: "nat \<Rightarrow> string \<Rightarrow> env" where
  "env_fault_at k msg = example_env\<lparr>fault := (\<lambda>i. if i = k then Some msg else None)\<rparr>"

section \<open>Properties of the numbers\<close>

subsection \<open>Digits\<close>

lemma nat_to_string_numeral:
  "nat_to_string (numeral k) =
     (if numeral k < (10::nat) then [digit_char (numeral k)]
      else nat_to_string (numeral k div 10) @ [digit_char (numeral k mod 10)])"
  by (subst nat_to_string.simps) simp

lemma nat_to_string_lt10: "n < 10 \<Longrightarrow> nat_to_string n = [digit_char n]"
  by (subst nat_to_string.simps) simp

lemmas nat_to_string_eval = nat_to_string_numeral nat_to_string_lt10 digit_char_def

subsection \<open>Rounding to binary64\<close>









subsection \<open>Parsing and the break-even expression\<close>





















section \<open>Properties of the break-even value and of the schema\<close>












section \<open>Properties of the dialog's handlers\<close>

text \<open>
  C10. When \<open>addCategory\<close> appends a category (the input, trimmed, is not empty and not yet
  in the list), it also sets the form's \<open>prizeCategory\<close> to the new value and clears the
  input; on an empty or duplicate input the whole state, and so the list, the selected
  category and the input text, is left as it was.
\<close>

theorem addCategory_frame:
  "(trim (newCategory m) \<noteq> [] \<and> trim (newCategory m) \<notin> set (categories m) \<longrightarrow>
      addCategory m =
        m\<lparr>categories := categories m @ [trim (newCategory m)],
          form := (form m)\<lparr>FormValues.prizeCategory := trim (newCategory m)\<rparr>,
          newCategory := []\<rparr>
      \<and> categories (addCategory m) = categories m @ [trim (newCategory m)]
      \<and> FormValues.prizeCategory (form (addCategory m)) = trim (newCategory m)
      \<and> newCategory (addCategory m) = [])
   \<and> (trim (newCategory m) = [] \<or> trim (newCategory m) \<in> set (categories m) \<longrightarrow>
      addCategory m = m)"
  by (simp add: addCategory_def Let_def)

theorem addCategory_frame_witness:
  "trim (newCategory (initial_modal\<lparr>newCategory := ''  Toys  ''\<rparr>)) = ''Toys''
   \<and> ''Toys'' \<notin> set (categories (initial_modal\<lparr>newCategory := ''  Toys  ''\<rparr>))
   \<and> categories (addCategory (initial_modal\<lparr>newCategory := ''  Toys  ''\<rparr>))
       = PRIZE_CATEGORIES @ [''Toys'']
   \<and> FormValues.prizeCategory (form (addCategory (initial_modal\<lparr>newCategory := ''  Toys  ''\<rparr>)))
       = ''Toys''
   \<and> newCategory (addCategory (initial_modal\<lparr>newCategory := ''  Toys  ''\<rparr>)) = []
   \<and> trim (newCategory (initial_modal\<lparr>newCategory := '' Travel''\<rparr>)) \<in> set PRIZE_CATEGORIES
   \<and> addCategory (initial_modal\<lparr>newCategory := '' Travel''\<rparr>)
       = initial_modal\<lparr>newCategory := '' Travel''\<rparr>"
  using addCategory_frame [of "initial_modal\<lparr>newCategory := ''  Toys  ''\<rparr>"]
        addCategory_frame [of "initial_modal\<lparr>newCategory := '' Travel''\<rparr>"]
  by (simp add: trim_def is_ws_def initial_modal_def PRIZE_CATEGORIES_def)

lemma slice0_take: "0 \<le> n \<Longrightarrow> slice0 xs n = take (nat n) xs"
  by (simp add: slice0_def Let_def min_def)

lemma handleImageUpload_length:
  assumes "length (imageFiles m) \<le> 4"
  shows "length (imageFiles (handleImageUpload files m)) \<le> 4"
proof (cases files)
  case None
  then show ?thesis using assms by (simp add: handleImageUpload_def)
next
  case (Some fs)
  from assms have r: "0 \<le> 4 - int (length (imageFiles m))" by simp
  show ?thesis using assms Some
    by (simp add: handleImageUpload_def Let_def slice0_take [OF r])
qed

lemma length_remove_index: "length (remove_index idx xs) \<le> length xs"
  using length_filter_le [of "\<lambda>(i, x). i \<noteq> idx" "enumerate 0 xs"]
  by (simp add: remove_index_def)

lemma handleSubmit_modal:
  "fst (handleSubmit env (m, w)) = m\<lparr>form_errors := form_errors (fst (handleSubmit env (m, w))),
                                     toasts := toasts (fst (handleSubmit env (m, w))),
                                     saving := saving (fst (handleSubmit env (m, w)))\<rparr>
   \<or> (imageFiles (fst (handleSubmit env (m, w))) = []
      \<and> selectedRegions (fst (handleSubmit env (m, w))) = []
      \<and> form (fst (handleSubmit env (m, w))) = defaultValues)"
  by (auto simp add: handleSubmit_def onSubmit_def split: sum.splits prod.splits)

lemma reachable_invariant:
  "reachable env s \<Longrightarrow>
     length (imageFiles (fst s)) \<le> 4
     \<and> FormValues.eligibleRegions (form (fst s)) = join '', '' (selectedRegions (fst s))"
proof (induction rule: reachable.induct)
  case (opened w)
  show ?case by (simp add: initial_modal_def defaultValues_def)
next
  case (typed m w v c)
  then show ?case by simp
next
  case (attached m w files)
  then show ?case using handleImageUpload_length [of m files]
    by (simp add: handleImageUpload_def Let_def split: option.splits)
next
  case (loaded m w result)
  then show ?case by (simp add: FileReader_onload_def)
next
  case (removed m w idx)
  then show ?case using length_remove_index [of idx "imageFiles m"]
    by (simp add: removeImage_def)
next
  case (toggled m w region)
  then show ?case by (simp add: toggleRegion_def Let_def)
next
  case (added m w)
  then show ?case by (simp add: addCategory_def Let_def)
next
  case (submitted m w)
  from handleSubmit_modal [of env m w] show ?case
  proof
    assume e: "fst (handleSubmit env (m, w)) = m\<lparr>form_errors := form_errors (fst (handleSubmit env (m, w))),
                                     toasts := toasts (fst (handleSubmit env (m, w))),
                                     saving := saving (fst (handleSubmit env (m, w)))\<rparr>"
    have "imageFiles (fst (handleSubmit env (m, w))) = imageFiles m"
      "form (fst (handleSubmit env (m, w))) = form m"
      "selectedRegions (fst (handleSubmit env (m, w))) = selectedRegions m"
      by (subst e, simp)+
    then show ?thesis using submitted.IH by simp
  next
    assume "imageFiles (fst (handleSubmit env (m, w))) = []
      \<and> selectedRegions (fst (handleSubmit env (m, w))) = []
      \<and> form (fst (handleSubmit env (m, w))) = defaultValues"
    then show ?thesis by (simp add: defaultValues_def)
  qed
qed


text \<open>
  C7. Every state of the dialog has at most 4 files staged. With \<open>k \<le> 4\<close> files staged,
  attaching a batch of \<open>m\<close> files appends the first \<open>4 - k\<close> of them in input order and
  drops the rest without any notification: the staged list then has \<open>min (k + m) 4\<close>
  files, never more than 4.
\<close>

theorem handleImageUpload_cap:
  "(reachable env (ma, w) \<longrightarrow> length (imageFiles ma) \<le> 4)
   \<and> (length (imageFiles m) \<le> 4 \<longrightarrow>
     imageFiles (handleImageUpload (Some fs) m)
       = imageFiles m @ take (4 - length (imageFiles m)) fs
     \<and> length (imageFiles (handleImageUpload (Some fs) m))
       = min (length (imageFiles m) + length fs) 4
     \<and> length (imageFiles (handleImageUpload (Some fs) m)) \<le> 4
     \<and> toasts (handleImageUpload (Some fs) m) = toasts m)"
proof (intro conjI impI)
  assume "reachable env (ma, w)"
  from reachable_invariant [OF this] show "length (imageFiles ma) \<le> 4" by simp
next
  assume k: "length (imageFiles m) \<le> 4"
  then have r: "0 \<le> 4 - int (length (imageFiles m))" by simp
  have n: "nat (4 - int (length (imageFiles m))) = 4 - length (imageFiles m)" by simp
  show e: "imageFiles (handleImageUpload (Some fs) m)
             = imageFiles m @ take (4 - length (imageFiles m)) fs"
    by (simp add: handleImageUpload_def Let_def slice0_take [OF r] n)
  show "toasts (handleImageUpload (Some fs) m) = toasts m"
    by (simp add: handleImageUpload_def Let_def)
  show l: "length (imageFiles (handleImageUpload (Some fs) m))
             = min (length (imageFiles m) + length fs) 4"
    using k unfolding e by simp
  show "length (imageFiles (handleImageUpload (Some fs) m)) \<le> 4"
    unfolding l by simp
qed

theorem handleImageUpload_cap_witness:
  "reachable example_env (handleImageUpload (Some six_files) initial_modal, example_world)
   \<and> length (imageFiles initial_modal) \<le> 4
   \<and> imageFiles (handleImageUpload (Some six_files) initial_modal) = take 4 six_files
   \<and> length (imageFiles (handleImageUpload (Some six_files) initial_modal)) = 4"
proof -
  have r: "reachable example_env (handleImageUpload (Some six_files) initial_modal, example_world)"
    by (intro reachable.attached reachable.opened)
  have i: "length (imageFiles initial_modal) \<le> 4" by (simp add: initial_modal_def)
  from handleImageUpload_cap
         [where env = example_env and w = example_world and m = initial_modal and fs = six_files
            and ma = "handleImageUpload (Some six_files) initial_modal"] r i
  have "length (imageFiles (handleImageUpload (Some six_files) initial_modal)) \<le> 4"
    and "imageFiles (handleImageUpload (Some six_files) initial_modal)
           = imageFiles initial_modal @ take (4 - length (imageFiles initial_modal)) six_files"
    and "length (imageFiles (handleImageUpload (Some six_files) initial_modal))
           = min (length (imageFiles initial_modal) + length six_files) 4"
    by blast+
  with r i show ?thesis by (simp add: initial_modal_def six_files_def)
qed

text \<open>
  C6, as stated, fails: with arima and chaguanas selected in this order, toggling arima
  twice leaves the field at \<open>chaguanas, arima\<close>.
\<close>

theorem toggleRegion_twice_counterexample:
  "FormValues.eligibleRegions
     (form (toggleRegion ''chaguanas'' (toggleRegion ''arima'' initial_modal)))
     = ''arima, chaguanas''
   \<and> FormValues.eligibleRegions
     (form (toggleRegion ''arima'' (toggleRegion ''arima''
        (toggleRegion ''chaguanas'' (toggleRegion ''arima'' initial_modal)))))
     = ''chaguanas, arima''"
  by (simp add: toggleRegion_def Let_def initial_modal_def)

lemma filter_neq_id: "x \<notin> set xs \<Longrightarrow> filter (\<lambda>r. r \<noteq> x) xs = xs"
  by (induction xs) auto

text \<open>
  C6, amended. Toggling twice a region that is not selected returns the selected list, and
  the \<open>eligibleRegions\<close> string generated from it, to the original; in every state of the
  dialog that string is the field's value, so the field returns to its value. Toggling
  twice a region that is selected moves it to the end of the list: the same regions, in
  another order unless it was the last. A single toggle keeps the relative order of the
  other entries, and the string is regenerated from the list on every toggle.
\<close>

theorem toggleRegion_twice:
  "(region \<notin> set (selectedRegions m) \<longrightarrow>
      selectedRegions (toggleRegion region (toggleRegion region m)) = selectedRegions m
      \<and> FormValues.eligibleRegions (form (toggleRegion region (toggleRegion region m)))
          = join '', '' (selectedRegions m))
   \<and> (reachable env (m, w) \<and> region \<notin> set (selectedRegions m) \<longrightarrow>
      FormValues.eligibleRegions (form (toggleRegion region (toggleRegion region m)))
          = FormValues.eligibleRegions (form m))
   \<and> (region \<in> set (selectedRegions m) \<longrightarrow>
      selectedRegions (toggleRegion region (toggleRegion region m))
        = filter (\<lambda>r. r \<noteq> region) (selectedRegions m) @ [region]
      \<and> set (selectedRegions (toggleRegion region (toggleRegion region m)))
        = set (selectedRegions m))
   \<and> filter (\<lambda>r. r \<noteq> region) (selectedRegions (toggleRegion region m))
        = filter (\<lambda>r. r \<noteq> region) (selectedRegions m)
   \<and> FormValues.eligibleRegions (form (toggleRegion region m))
        = join '', '' (selectedRegions (toggleRegion region m))"
proof -
  have a: "region \<notin> set (selectedRegions m) \<longrightarrow>
      selectedRegions (toggleRegion region (toggleRegion region m)) = selectedRegions m
      \<and> FormValues.eligibleRegions (form (toggleRegion region (toggleRegion region m)))
          = join '', '' (selectedRegions m)"
    by (simp add: toggleRegion_def Let_def filter_neq_id)
  have b: "reachable env (m, w) \<and> region \<notin> set (selectedRegions m) \<longrightarrow>
      FormValues.eligibleRegions (form (toggleRegion region (toggleRegion region m)))
          = FormValues.eligibleRegions (form m)"
    using a reachable_invariant [of env "(m, w)"] by simp
  have c: "region \<in> set (selectedRegions m) \<longrightarrow>
      selectedRegions (toggleRegion region (toggleRegion region m))
        = filter (\<lambda>r. r \<noteq> region) (selectedRegions m) @ [region]
      \<and> set (selectedRegions (toggleRegion region (toggleRegion region m)))
        = set (selectedRegions m)"
    by (auto simp add: toggleRegion_def Let_def)
  have d: "filter (\<lambda>r. r \<noteq> region) (selectedRegions (toggleRegion region m))
        = filter (\<lambda>r. r \<noteq> region) (selectedRegions m)"
    by (simp add: toggleRegion_def Let_def)
  have e: "FormValues.eligibleRegions (form (toggleRegion region m))
        = join '', '' (selectedRegions (toggleRegion region m))"
    by (simp add: toggleRegion_def Let_def)
  from a b c d e show ?thesis by blast
qed

theorem toggleRegion_twice_witness:
  "reachable example_env (toggleRegion ''chaguanas'' initial_modal, example_world)
   \<and> ''arima'' \<notin> set (selectedRegions (toggleRegion ''chaguanas'' initial_modal))
   \<and> selectedRegions (toggleRegion ''arima'' (toggleRegion ''arima''
        (toggleRegion ''chaguanas'' initial_modal))) = [''chaguanas'']
   \<and> FormValues.eligibleRegions (form (toggleRegion ''arima'' (toggleRegion ''arima''
        (toggleRegion ''chaguanas'' initial_modal)))) = ''chaguanas''
   \<and> FormValues.eligibleRegions (form (toggleRegion ''chaguanas'' initial_modal)) = ''chaguanas''
   \<and> ''chaguanas'' \<in> set (selectedRegions (toggleRegion ''chaguanas'' initial_modal))
   \<and> selectedRegions (toggleRegion ''chaguanas'' (toggleRegion ''chaguanas''
        (toggleRegion ''chaguanas'' initial_modal))) = [''chaguanas'']"
proof -
  let ?m = "toggleRegion ''chaguanas'' initial_modal"
  have r: "reachable example_env (?m, example_world)"
    by (intro reachable.toggled reachable.opened)
  have s: "selectedRegions ?m = [''chaguanas'']"
    by (simp add: toggleRegion_def Let_def initial_modal_def)
  have n: "''arima'' \<notin> set (selectedRegions ?m)" "''chaguanas'' \<in> set (selectedRegions ?m)"
    unfolding s by simp_all
  from toggleRegion_twice [where region = "''arima''" and m = ?m and env = example_env
                             and w = example_world] r n(1)
  have a: "selectedRegions (toggleRegion ''arima'' (toggleRegion ''arima'' ?m)) = selectedRegions ?m"
    and b: "FormValues.eligibleRegions (form (toggleRegion ''arima'' (toggleRegion ''arima'' ?m)))
              = join '', '' (selectedRegions ?m)"
    and c: "FormValues.eligibleRegions (form (toggleRegion ''arima'' (toggleRegion ''arima'' ?m)))
              = FormValues.eligibleRegions (form ?m)"
    by blast+
  from toggleRegion_twice [where region = "''chaguanas''" and m = ?m and env = example_env
                             and w = example_world] n(2)
  have d: "selectedRegions (toggleRegion ''chaguanas'' (toggleRegion ''chaguanas'' ?m))
             = filter (\<lambda>r. r \<noteq> ''chaguanas'') (selectedRegions ?m) @ [''chaguanas'']"
    by blast
  from r n a b c d show ?thesis unfolding s by simp
qed

text \<open>
  C5. With no image staged, \<open>onSubmit\<close> shows the notification \<open>images_required\<close>, which is
  neither the error nor the success notification, and returns with the world as it was:
  no upload, no insert, no sponsor update. The check sits in \<open>onSubmit\<close>, which the form
  runs on a submit event only after the schema has accepted the values; when the schema
  rejects them the field errors are set and nothing else happens.
\<close>

theorem onSubmit_no_images:
  "imageFiles m = [] \<longrightarrow>
     onSubmit env values (m, w) = (m\<lparr>toasts := toasts m @ [images_required]\<rparr>, w)
     \<and> calls (snd (onSubmit env values (m, w))) = calls w
     \<and> handleSubmit env (m, w) =
         (case formSchema (form m) of
            Inl issues \<Rightarrow> (m\<lparr>form_errors := issues\<rparr>, w)
          | Inr v \<Rightarrow> (m\<lparr>form_errors := [], toasts := toasts m @ [images_required]\<rparr>, w))
     \<and> calls (snd (handleSubmit env (m, w))) = calls w
     \<and> images_required \<noteq> error_toast err
     \<and> images_required \<noteq> prize_created n"
  by (simp add: onSubmit_def handleSubmit_def images_required_def error_toast_def
      prize_created_def split: sum.splits)

theorem onSubmit_no_images_witness:
  "imageFiles initial_modal = []
   \<and> onSubmit example_env example_values (initial_modal, example_world)
       = (initial_modal\<lparr>toasts := [images_required]\<rparr>, example_world)
   \<and> formSchema (form (initial_modal\<lparr>form := example_values\<rparr>)) = Inr example_values
   \<and> handleSubmit example_env (initial_modal\<lparr>form := example_values\<rparr>, example_world)
       = (initial_modal\<lparr>form := example_values, toasts := [images_required]\<rparr>, example_world)"
  using onSubmit_no_images [of initial_modal example_env example_values example_world]
        onSubmit_no_images [of "initial_modal\<lparr>form := example_values\<rparr>" example_env
                               example_values example_world]
  by (simp add: initial_modal_def formSchema_def formSchema_issues_def min_issue_def
      max_issue_def example_values_def)

section \<open>Properties of the prize service\<close>

subsection \<open>Effects of the service calls\<close>


lemma uploadBytes_effect:
  "uploadBytes env p f w = (r, w1) \<Longrightarrow>
     calls w1 = calls w @ [UploadBytes p f] \<and> prize_database w1 = prize_database w
     \<and> sponsors w1 = sponsors w \<and> console w1 = console w
     \<and> (\<forall>u. r = Inr u \<longrightarrow> storage w1 p = Some f)"
  by (auto simp add: uploadBytes_def Let_def split: option.splits)

lemma getDownloadURL_effect:
  "getDownloadURL env p w = (r, w1) \<Longrightarrow>
     calls w1 = calls w @ [GetDownloadURL p] \<and> prize_database w1 = prize_database w
     \<and> sponsors w1 = sponsors w \<and> console w1 = console w
     \<and> (\<forall>url. r = Inr url \<longrightarrow> url = url_of env p)"
  by (auto simp add: getDownloadURL_def Let_def split: option.splits)

lemma upload_images_effect:
  "upload_images env fs urls w = (r, w') \<Longrightarrow>
     (\<exists>cs. calls w' = calls w @ cs \<and> list_all is_storage_call cs
        \<and> (\<forall>urls'. r = Inr urls' \<longrightarrow>
              map snd (uploads cs) = fs \<and> urls' = urls @ map (\<lambda>(p, f). url_of env p) (uploads cs)))
     \<and> prize_database w' = prize_database w \<and> sponsors w' = sponsors w
     \<and> console w' = console w"
proof (induction fs arbitrary: urls w)
  case Nil
  then show ?case by auto
next
  case (Cons f fs)
  define p where "p = ''prize_database/'' @ nat_to_string (Date_now env w) @ ''_'' @ name f"
  obtain r1 w1 where u: "uploadBytes env p f w = (r1, w1)" by (cases "uploadBytes env p f w")
  note u1 = uploadBytes_effect [OF u]
  show ?case
  proof (cases r1)
    case (Inl e)
    with Cons.prems u have "r = Inl e" "w' = w1" by (simp_all add: p_def Let_def)
    with u1 show ?thesis by auto
  next
    case (Inr x)
    obtain r2 w2 where g: "getDownloadURL env p w1 = (r2, w2)"
      by (cases "getDownloadURL env p w1")
    note g1 = getDownloadURL_effect [OF g]
    show ?thesis
    proof (cases r2)
      case (Inl e)
      with Cons.prems u g Inr have "r = Inl e" "w' = w2" by (simp_all add: p_def Let_def)
      with u1 g1 show ?thesis by auto
    next
      case url: (Inr url)
      with Cons.prems u g Inr have rec: "upload_images env fs (urls @ [url]) w2 = (r, w')"
        by (simp add: p_def Let_def)
      from Cons.IH [OF rec] obtain cs where cs: "calls w' = calls w2 @ cs"
        "list_all is_storage_call cs"
        "\<forall>urls'. r = Inr urls' \<longrightarrow>
           map snd (uploads cs) = fs
           \<and> urls' = (urls @ [url]) @ map (\<lambda>(p, f). url_of env p) (uploads cs)"
        and fr: "prize_database w' = prize_database w2" "sponsors w' = sponsors w2"
          "console w' = console w2"
        by blast
      have c: "calls w' = calls w @ (UploadBytes p f # GetDownloadURL p # cs)"
        using cs(1) u1 g1 by simp
      have l: "list_all is_storage_call (UploadBytes p f # GetDownloadURL p # cs)"
        using cs(2) by simp
      have o: "\<forall>urls'. r = Inr urls' \<longrightarrow>
           map snd (uploads (UploadBytes p f # GetDownloadURL p # cs)) = f # fs
           \<and> urls' = urls @ map (\<lambda>(p, f). url_of env p)
                               (uploads (UploadBytes p f # GetDownloadURL p # cs))"
        using cs(3) g1 url by simp
      from c l o fr u1 g1 show ?thesis by (intro conjI exI [of _ "UploadBytes p f # GetDownloadURL p # cs"]) simp_all
    qed
  qed
qed


lemma addDoc_effect:
  "addDoc env c d w = (r, w1) \<Longrightarrow>
     calls w1 = calls w @ [AddDoc c d] \<and> sponsors w1 = sponsors w \<and> console w1 = console w
     \<and> (\<forall>e. r = Inl e \<longrightarrow> prize_database w1 = prize_database w)
     \<and> (\<forall>i. r = Inr i \<longrightarrow> prize_database w1 = (prize_database w)(i \<mapsto> d))"
  by (auto simp add: addDoc_def Let_def split: option.splits)

lemma updateDoc_effect:
  "updateDoc env c i x w = (r, w1) \<Longrightarrow>
     prize_database w1 = prize_database w \<and> console w1 = console w
     \<and> (calls w1 = calls w \<or> calls w1 = calls w @ [UpdateDoc c i x])
     \<and> (\<forall>e. r = Inl e \<longrightarrow> sponsors w1 = sponsors w)
     \<and> (\<forall>u. r = Inr u \<longrightarrow> (\<exists>arr. sponsors w1 i = Some arr \<and> x \<in> set arr))"
  by (auto simp add: updateDoc_def Let_def arrayUnion_def split: option.splits if_splits)

lemma issued_append: "calls w' = calls w @ cs \<Longrightarrow> issued w w' = cs"
  by (simp add: issued_def)

lemma staged_storage: "list_all is_storage_call cs \<Longrightarrow> staged cs"
proof -
  assume "list_all is_storage_call cs"
  then have d: "dropWhile is_storage_call cs = []" by (simp add: list_all_iff)
  show ?thesis unfolding staged_def d by simp
qed

lemma staged_insert:
  "list_all is_storage_call cs \<Longrightarrow> staged (cs @ [AddDoc c d])"
proof -
  assume "list_all is_storage_call cs"
  then have "dropWhile is_storage_call (cs @ [AddDoc c d]) = [AddDoc c d]"
    by (simp add: list_all_iff dropWhile_append)
  then show ?thesis by (simp add: staged_def)
qed

lemma staged_update:
  "list_all is_storage_call cs \<Longrightarrow> staged (cs @ [AddDoc c d, UpdateDoc a i x])"
proof -
  assume "list_all is_storage_call cs"
  then have "dropWhile is_storage_call (cs @ [AddDoc c d, UpdateDoc a i x])
               = [AddDoc c d, UpdateDoc a i x]"
    by (simp add: list_all_iff dropWhile_append)
  then show ?thesis by (simp add: staged_def)
qed

subsection \<open>The run of createPrizeDocument, stage by stage\<close>

lemma createPrizeDocument_upload_failed:
  assumes "upload_images env fs [] w = (Inl e, w1)"
  shows "createPrizeDocument env data fs sid w = (Inl e, w1)"
  using assms by (simp add: createPrizeDocument_def)

lemma createPrizeDocument_insert_failed:
  assumes "upload_images env fs [] w = (Inr urls, w1)"
    and "addDoc env ''prize_database'' (build_prizeDoc data urls (Date_now env w1)) w1 = (Inl e, w2)"
  shows "createPrizeDocument env data fs sid w = (Inl e, w2)"
  using assms by (simp add: createPrizeDocument_def)

lemma createPrizeDocument_inserted:
  assumes "upload_images env fs [] w = (Inr urls, w1)"
    and "addDoc env ''prize_database'' (build_prizeDoc data urls (Date_now env w1)) w1 = (Inr i, w2)"
    and "updateDoc env ''sponsors'' sid i w2 = (r, w3)"
  shows "createPrizeDocument env data fs sid w =
           (Inr i, case r of
                     Inl err \<Rightarrow> w3\<lparr>console := console w3
                                  @ [Warn ''Could not update sponsor prizesCreation:'' err]\<rparr>
                   | Inr u \<Rightarrow> w3)"
  using assms by (cases r) (simp_all add: createPrizeDocument_def)



lemmas run_eval = createPrizeDocument_def uploadBytes_def getDownloadURL_def addDoc_def
  updateDoc_def arrayUnion_def Date_now_def env_fault_at_def example_env_def example_world_def
  two_files_def Let_def nat_to_string_eval

text \<open>
  C1. The stages run in order: the calls of a run are storage calls, then at most one
  insert, then at most one sponsor update. When the upload loop fails, the function throws
  with that error, having issued storage calls only and with the prize collection and the
  sponsors as they were. When the uploads succeed and the insert fails, the function
  throws with the insert's error, no update call is among the calls issued, and again
  neither collection has changed.
\<close>

theorem createPrizeDocument_stage_order:
  "(upload_images env fs [] w = (Inl e, wa) \<longrightarrow>
      createPrizeDocument env data fs sid w = (Inl e, wa)
      \<and> list_all is_storage_call (issued w wa)
      \<and> prize_database wa = prize_database w \<and> sponsors wa = sponsors w)
   \<and> (upload_images env fs [] w = (Inr urls, wb)
       \<and> addDoc env ''prize_database'' (build_prizeDoc data urls (Date_now env wb)) wb = (Inl ea, wc) \<longrightarrow>
      createPrizeDocument env data fs sid w = (Inl ea, wc)
      \<and> list_all (\<lambda>c. \<not> is_update c) (issued w wc)
      \<and> prize_database wc = prize_database w \<and> sponsors wc = sponsors w)
   \<and> staged (issued w (snd (createPrizeDocument env data fs sid w)))"
proof (intro conjI impI)
  assume a: "upload_images env fs [] w = (Inl e, wa)"
  from upload_images_effect [OF a] obtain cs where
    "calls wa = calls w @ cs" "list_all is_storage_call cs"
    "prize_database wa = prize_database w" "sponsors wa = sponsors w"
    by blast
  then show "createPrizeDocument env data fs sid w = (Inl e, wa)"
    "list_all is_storage_call (issued w wa)"
    "prize_database wa = prize_database w" "sponsors wa = sponsors w"
    using createPrizeDocument_upload_failed [OF a] by (simp_all add: issued_append)
next
  assume b: "upload_images env fs [] w = (Inr urls, wb)
       \<and> addDoc env ''prize_database'' (build_prizeDoc data urls (Date_now env wb)) wb = (Inl ea, wc)"
  then have b1: "upload_images env fs [] w = (Inr urls, wb)"
    and b2: "addDoc env ''prize_database'' (build_prizeDoc data urls (Date_now env wb)) wb = (Inl ea, wc)"
    by simp_all
  from upload_images_effect [OF b1] obtain cs where cs:
    "calls wb = calls w @ cs" "list_all is_storage_call cs"
    "prize_database wb = prize_database w" "sponsors wb = sponsors w"
    by blast
  note a2 = addDoc_effect [OF b2]
  have c: "calls wc = calls w @ (cs @ [AddDoc ''prize_database'' (build_prizeDoc data urls (Date_now env wb))])"
    using cs(1) a2 by simp
  have n: "list_all (\<lambda>c. \<not> is_update c) cs"
    using cs(2) by (induction cs) (auto elim: is_storage_call.elims)
  show "createPrizeDocument env data fs sid w = (Inl ea, wc)"
    by (rule createPrizeDocument_insert_failed [OF b1 b2])
  show "list_all (\<lambda>c. \<not> is_update c) (issued w wc)"
    using n by (simp add: issued_append [OF c])
  show "prize_database wc = prize_database w" using a2 cs(3) by simp
  show "sponsors wc = sponsors w" using a2 cs(4) by simp
next
  obtain r1 x1 where u: "upload_images env fs [] w = (r1, x1)"
    by (cases "upload_images env fs [] w")
  from upload_images_effect [OF u] obtain cs where cs:
    "calls x1 = calls w @ cs" "list_all is_storage_call cs"
    by blast
  show "staged (issued w (snd (createPrizeDocument env data fs sid w)))"
  proof (cases r1)
    case (Inl e)
    with u have "createPrizeDocument env data fs sid w = (Inl e, x1)"
      by (simp add: createPrizeDocument_upload_failed)
    then show ?thesis using cs by (simp add: issued_append staged_storage)
  next
    case (Inr us)
    let ?d = "build_prizeDoc data us (Date_now env x1)"
    obtain r2 x2 where a: "addDoc env ''prize_database'' ?d x1 = (r2, x2)"
      by (cases "addDoc env ''prize_database'' ?d x1")
    note a2 = addDoc_effect [OF a]
    have c2: "calls x2 = calls w @ (cs @ [AddDoc ''prize_database'' ?d])"
      using cs(1) a2 by simp
    show ?thesis
    proof (cases r2)
      case (Inl e)
      with u a Inr have "createPrizeDocument env data fs sid w = (Inl e, x2)"
        by (simp add: createPrizeDocument_insert_failed)
      then show ?thesis using cs(2) by (simp add: issued_append [OF c2] staged_insert)
    next
      case i: (Inr i)
      obtain r3 x3 where p: "updateDoc env ''sponsors'' sid i x2 = (r3, x3)"
        by (cases "updateDoc env ''sponsors'' sid i x2")
      note p2 = updateDoc_effect [OF p]
      from u a p Inr i have run: "createPrizeDocument env data fs sid w =
           (Inr i, case r3 of
                     Inl err \<Rightarrow> x3\<lparr>console := console x3
                                  @ [Warn ''Could not update sponsor prizesCreation:'' err]\<rparr>
                   | Inr u \<Rightarrow> x3)"
        by (simp add: createPrizeDocument_inserted)
      have cr: "calls (snd (createPrizeDocument env data fs sid w)) = calls x3"
        unfolding run by (cases r3) simp_all
      from p2 have "calls x3 = calls x2 \<or> calls x3 = calls x2 @ [UpdateDoc ''sponsors'' sid i]"
        by simp
      then show ?thesis
      proof
        assume "calls x3 = calls x2"
        then have "calls (snd (createPrizeDocument env data fs sid w))
                     = calls w @ (cs @ [AddDoc ''prize_database'' ?d])"
          using cr c2 by simp
        then show ?thesis using cs(2) by (simp add: issued_append staged_insert)
      next
        assume "calls x3 = calls x2 @ [UpdateDoc ''sponsors'' sid i]"
        then have "calls (snd (createPrizeDocument env data fs sid w))
                     = calls w @ (cs @ [AddDoc ''prize_database'' ?d, UpdateDoc ''sponsors'' sid i])"
          using cr c2 by simp
        then show ?thesis using cs(2) by (simp add: issued_append staged_update)
      qed
    qed
  qed
qed


theorem createPrizeDocument_stage_order_witness:
  "fst (upload_images (env_fault_at 2 ''quota'') two_files [] example_world)
     = Inl (StorageError ''quota'')
   \<and> fst (createPrizeDocument (env_fault_at 2 ''quota'') (submit_data example_values)
            two_files ''s1'' example_world) = Inl (StorageError ''quota'')
   \<and> prize_database (snd (createPrizeDocument (env_fault_at 2 ''quota'')
        (submit_data example_values) two_files ''s1'' example_world)) = Map.empty
   \<and> fst (upload_images (env_fault_at 4 ''denied'') two_files [] example_world)
     = Inr [''https://storage.example/prize_database/1700000000000_a.png'',
            ''https://storage.example/prize_database/1700000000002_b.png'']
   \<and> fst (createPrizeDocument (env_fault_at 4 ''denied'') (submit_data example_values)
            two_files ''s1'' example_world) = Inl (FirestoreError ''denied'')
   \<and> sponsors (snd (createPrizeDocument (env_fault_at 4 ''denied'')
        (submit_data example_values) two_files ''s1'' example_world)) ''s1'' = Some []
   \<and> list_all (\<lambda>c. \<not> is_update c) (issued example_world
        (snd (createPrizeDocument (env_fault_at 4 ''denied'')
           (submit_data example_values) two_files ''s1'' example_world)))"
proof -
  let ?D = "submit_data example_values"
  let ?E = "env_fault_at 2 ''quota''"
  let ?U = "upload_images ?E two_files [] example_world"
  have u: "fst ?U = Inl (StorageError ''quota'')" by (simp add: run_eval)
  then have h: "?U = (Inl (StorageError ''quota''), snd ?U)" by (simp add: prod_eq_iff)
  from createPrizeDocument_stage_order
         [where env = ?E and fs = two_files and w = example_world
            and e = "StorageError ''quota''" and wa = "snd ?U" and data = ?D and sid = "''s1''"] h
  have c: "createPrizeDocument ?E ?D two_files ''s1'' example_world
             = (Inl (StorageError ''quota''), snd ?U)"
    and d: "prize_database (snd ?U) = prize_database example_world"
    by blast+
  let ?F = "env_fault_at 4 ''denied''"
  let ?V = "upload_images ?F two_files [] example_world"
  let ?urls = "[''https://storage.example/prize_database/1700000000000_a.png'',
                ''https://storage.example/prize_database/1700000000002_b.png'']"
  let ?A = "addDoc ?F ''prize_database'' (build_prizeDoc ?D ?urls (Date_now ?F (snd ?V))) (snd ?V)"
  have v: "fst ?V = Inr ?urls" by (simp add: run_eval)
  then have hv: "?V = (Inr ?urls, snd ?V)" by (simp add: prod_eq_iff)
  have a: "fst ?A = Inl (FirestoreError ''denied'')" by (simp add: run_eval)
  then have ha: "?A = (Inl (FirestoreError ''denied''), snd ?A)" by (simp add: prod_eq_iff)
  from createPrizeDocument_stage_order
         [where env = ?F and fs = two_files and w = example_world and urls = ?urls
            and wb = "snd ?V" and ea = "FirestoreError ''denied''" and wc = "snd ?A"
            and data = ?D and sid = "''s1''"] hv ha
  have c2: "createPrizeDocument ?F ?D two_files ''s1'' example_world
             = (Inl (FirestoreError ''denied''), snd ?A)"
    and n2: "list_all (\<lambda>c. \<not> is_update c) (issued example_world (snd ?A))"
    and s2: "sponsors (snd ?A) = sponsors example_world"
    by blast+
  have e: "prize_database example_world = Map.empty" "sponsors example_world ''s1'' = Some []"
    by (simp_all add: example_world_def)
  from u c d v c2 n2 s2 e show ?thesis by simp
qed

text \<open>
  C2. When the uploads and the insert succeed, the function returns the identifier the
  store generated, whatever the sponsor update does, and the inserted document stays in
  the collection. When the update fails, its error is not returned: the only trace is one
  warning on the console.
\<close>

theorem createPrizeDocument_sponsor_link_swallowed:
  "upload_images env fs [] w = (Inr urls, wa)
   \<and> addDoc env ''prize_database'' (build_prizeDoc data urls (Date_now env wa)) wa = (Inr docId, wb) \<longrightarrow>
     fst (createPrizeDocument env data fs sid w) = Inr docId
     \<and> prize_database (snd (createPrizeDocument env data fs sid w)) = prize_database wb
     \<and> prize_database (snd (createPrizeDocument env data fs sid w)) docId
         = Some (build_prizeDoc data urls (Date_now env wa))
     \<and> (updateDoc env ''sponsors'' sid docId wb = (Inl err, wc) \<longrightarrow>
          createPrizeDocument env data fs sid w
            = (Inr docId,
               wc\<lparr>console := console wc @ [Warn ''Could not update sponsor prizesCreation:'' err]\<rparr>)
          \<and> console (snd (createPrizeDocument env data fs sid w))
              = console w @ [Warn ''Could not update sponsor prizesCreation:'' err])"
proof (intro impI)
  assume h: "upload_images env fs [] w = (Inr urls, wa)
   \<and> addDoc env ''prize_database'' (build_prizeDoc data urls (Date_now env wa)) wa = (Inr docId, wb)"
  then have u: "upload_images env fs [] w = (Inr urls, wa)"
    and a: "addDoc env ''prize_database'' (build_prizeDoc data urls (Date_now env wa)) wa = (Inr docId, wb)"
    by simp_all
  obtain r x where p: "updateDoc env ''sponsors'' sid docId wb = (r, x)"
    by (cases "updateDoc env ''sponsors'' sid docId wb")
  note run = createPrizeDocument_inserted [OF u a p]
  note u2 = upload_images_effect [OF u]
  note a2 = addDoc_effect [OF a]
  note p2 = updateDoc_effect [OF p]
  have db: "prize_database (snd (createPrizeDocument env data fs sid w)) = prize_database wb"
    unfolding run using p2 by (cases r) simp_all
  have "prize_database wb docId = Some (build_prizeDoc data urls (Date_now env wa))"
    using a2 by simp
  with db have at: "prize_database (snd (createPrizeDocument env data fs sid w)) docId
         = Some (build_prizeDoc data urls (Date_now env wa))" by simp
  have res: "fst (createPrizeDocument env data fs sid w) = Inr docId"
    unfolding run by simp
  have sw: "updateDoc env ''sponsors'' sid docId wb = (Inl err, wc) \<longrightarrow>
          createPrizeDocument env data fs sid w
            = (Inr docId,
               wc\<lparr>console := console wc @ [Warn ''Could not update sponsor prizesCreation:'' err]\<rparr>)
          \<and> console (snd (createPrizeDocument env data fs sid w))
              = console w @ [Warn ''Could not update sponsor prizesCreation:'' err]"
  proof
    assume f: "updateDoc env ''sponsors'' sid docId wb = (Inl err, wc)"
    note f2 = updateDoc_effect [OF f]
    have c: "console wc = console w" using f2 a2 u2 by simp
    show "createPrizeDocument env data fs sid w
            = (Inr docId,
               wc\<lparr>console := console wc @ [Warn ''Could not update sponsor prizesCreation:'' err]\<rparr>)
          \<and> console (snd (createPrizeDocument env data fs sid w))
              = console w @ [Warn ''Could not update sponsor prizesCreation:'' err]"
      using createPrizeDocument_inserted [OF u a f] c by simp
  qed
  from res db at sw show "fst (createPrizeDocument env data fs sid w) = Inr docId
     \<and> prize_database (snd (createPrizeDocument env data fs sid w)) = prize_database wb
     \<and> prize_database (snd (createPrizeDocument env data fs sid w)) docId
         = Some (build_prizeDoc data urls (Date_now env wa))
     \<and> (updateDoc env ''sponsors'' sid docId wb = (Inl err, wc) \<longrightarrow>
          createPrizeDocument env data fs sid w
            = (Inr docId,
               wc\<lparr>console := console wc @ [Warn ''Could not update sponsor prizesCreation:'' err]\<rparr>)
          \<and> console (snd (createPrizeDocument env data fs sid w))
              = console w @ [Warn ''Could not update sponsor prizesCreation:'' err])"
    by blast
qed

theorem createPrizeDocument_sponsor_link_swallowed_witness:
  "fst (upload_images (env_fault_at 5 ''unavailable'') two_files [] example_world)
     = Inr [''https://storage.example/prize_database/1700000000000_a.png'',
            ''https://storage.example/prize_database/1700000000002_b.png'']
   \<and> fst (createPrizeDocument (env_fault_at 5 ''unavailable'') (submit_data example_values)
            two_files ''s1'' example_world) = Inr ''prize4''
   \<and> prize_database (snd (createPrizeDocument (env_fault_at 5 ''unavailable'')
        (submit_data example_values) two_files ''s1'' example_world)) ''prize4''
       = Some (build_prizeDoc (submit_data example_values)
                 [''https://storage.example/prize_database/1700000000000_a.png'',
                  ''https://storage.example/prize_database/1700000000002_b.png'']
                 1700000000004)
   \<and> console (snd (createPrizeDocument (env_fault_at 5 ''unavailable'')
        (submit_data example_values) two_files ''s1'' example_world))
       = [Warn ''Could not update sponsor prizesCreation:'' (FirestoreError ''unavailable'')]"
proof -
  let ?D = "submit_data example_values"
  let ?E = "env_fault_at 5 ''unavailable''"
  let ?U = "upload_images ?E two_files [] example_world"
  let ?urls = "[''https://storage.example/prize_database/1700000000000_a.png'',
                ''https://storage.example/prize_database/1700000000002_b.png'']"
  let ?A = "addDoc ?E ''prize_database'' (build_prizeDoc ?D ?urls (Date_now ?E (snd ?U))) (snd ?U)"
  let ?P = "updateDoc ?E ''sponsors'' ''s1'' ''prize4'' (snd ?A)"
  have u: "fst ?U = Inr ?urls" by (simp add: run_eval)
  then have hu: "?U = (Inr ?urls, snd ?U)" by (simp add: prod_eq_iff)
  have t: "Date_now ?E (snd ?U) = 1700000000004" by (simp add: run_eval)
  have a: "fst ?A = Inr ''prize4''" by (simp add: run_eval)
  then have ha: "?A = (Inr ''prize4'', snd ?A)" by (simp add: prod_eq_iff)
  have p: "fst ?P = Inl (FirestoreError ''unavailable'')" by (simp add: run_eval)
  then have hp: "?P = (Inl (FirestoreError ''unavailable''), snd ?P)" by (simp add: prod_eq_iff)
  from createPrizeDocument_sponsor_link_swallowed
         [where env = ?E and fs = two_files and w = example_world and urls = ?urls
            and wa = "snd ?U" and docId = "''prize4''" and wb = "snd ?A"
            and err = "FirestoreError ''unavailable''" and wc = "snd ?P"
            and data = ?D and sid = "''s1''"] hu ha hp
  have r: "fst (createPrizeDocument ?E ?D two_files ''s1'' example_world) = Inr ''prize4''"
    and d: "prize_database (snd (createPrizeDocument ?E ?D two_files ''s1'' example_world)) ''prize4''
              = Some (build_prizeDoc ?D ?urls (Date_now ?E (snd ?U)))"
    and c: "console (snd (createPrizeDocument ?E ?D two_files ''s1'' example_world))
              = console example_world
                @ [Warn ''Could not update sponsor prizesCreation:'' (FirestoreError ''unavailable'')]"
    by blast+
  have e: "console example_world = []" by (simp add: example_world_def)
  from u r d c t e show ?thesis by simp
qed





section \<open>Properties of the prize list screen\<close>













end
